theory Spec2Isabelle
  imports Main "HOL-Library.Sublist" "HOL-Library.Product_Lexorder" "HOL-Library.Multiset" "HOL-Library.AList"
begin

section \<open>Python values shared by the data pipeline\<close>

text \<open>
  The errors the modelled code can raise. \<open>KeyError\<close> carries the missing key where it is a
  string (a field of a raw record, a word of the vocabulary).
\<close>

datatype py_error =
    KeyError string
  | IndexError
  | ValueError
  | ZeroDivisionError
  | AttributeError string
  | AssertionError
  | TypeError
  | RuntimeError

text \<open>\<open>list(range(a, b))\<close> on Python integers: empty when \<open>b \<le> a\<close>.\<close>

definition py_range :: "int \<Rightarrow> int \<Rightarrow> int list" where
  "py_range a b = [a..b - 1]"

text \<open>\<open>[x] * n\<close>: a negative count gives the empty list.\<close>

definition py_repeat :: "'a \<Rightarrow> int \<Rightarrow> 'a list" where
  "py_repeat x n = replicate (nat n) x"

section \<open>DataProcessor.get_positions\<close>

text \<open>
  \<^verbatim>\<open>return list(range(-start_idx, 0)) + [0] * (end_idx - start_idx + 1) +
         list(range(1, length - end_idx))\<close>
\<close>

definition get_positions :: "int \<Rightarrow> int \<Rightarrow> int \<Rightarrow> int list" where
  "get_positions start_idx end_idx len =
     py_range (- start_idx) 0 @ py_repeat 0 (end_idx - start_idx + 1) @
     py_range 1 (len - end_idx)"

lemma length_py_range: "length (py_range a b) = nat (b - a)"
  by (simp add: py_range_def)

lemma nth_py_range: "0 \<le> k \<Longrightarrow> a + k < b \<Longrightarrow> py_range a b ! nat k = a + k"
  by (simp add: py_range_def)

lemma length_get_positions:
  "0 \<le> s \<Longrightarrow> s \<le> e \<Longrightarrow> e < l \<Longrightarrow> length (get_positions s e l) = nat l"
  by (simp add: get_positions_def length_py_range py_repeat_def)

lemma get_positions_before:
  assumes "0 \<le> i" "i < s" "s \<le> e" "e < l"
  shows "get_positions s e l ! nat i = i - s"
proof -
  have "nat i < length (py_range (- s) 0)"
    using assms by (simp add: length_py_range)
  then have "get_positions s e l ! nat i = py_range (- s) 0 ! nat i"
    by (simp add: get_positions_def nth_append)
  also have "\<dots> = - s + i"
    using assms by (intro nth_py_range) auto
  finally show ?thesis by simp
qed

lemma get_positions_inside:
  assumes "0 \<le> s" "s \<le> i" "i \<le> e" "e < l"
  shows "get_positions s e l ! nat i = 0"
proof -
  have a: "\<not> nat i < length (py_range (- s) 0)"
    using assms by (simp add: length_py_range)
  have b: "nat i - length (py_range (- s) 0) < length (py_repeat (0::int) (e - s + 1))"
    using assms by (simp add: length_py_range py_repeat_def)
  have "get_positions s e l ! nat i =
        py_repeat (0::int) (e - s + 1) ! (nat i - length (py_range (- s) 0))"
    using a b by (simp add: get_positions_def nth_append)
  also have "\<dots> = 0"
    using b by (simp add: py_repeat_def)
  finally show ?thesis .
qed

lemma get_positions_after:
  assumes "0 \<le> s" "s \<le> e" "e < i" "i < l"
  shows "get_positions s e l ! nat i = i - e"
proof -
  let ?n = "length (py_range (- s) 0 @ py_repeat (0::int) (e - s + 1))"
  have n: "?n = nat (e + 1)"
    using assms by (simp add: length_py_range py_repeat_def)
  have "get_positions s e l = (py_range (- s) 0 @ py_repeat 0 (e - s + 1)) @ py_range 1 (l - e)"
    by (simp add: get_positions_def)
  then have "get_positions s e l ! nat i = py_range 1 (l - e) ! (nat i - ?n)"
    using assms n by (simp only: nth_append) auto
  also have "nat i - ?n = nat (i - e - 1)"
    using assms n by simp
  also have "py_range 1 (l - e) ! nat (i - e - 1) = 1 + (i - e - 1)"
    using assms by (intro nth_py_range) auto
  finally show ?thesis by simp
qed

text \<open>
  C8. For a span with \<open>0 \<le> start \<le> end < length\<close>, \<open>get_positions start end length\<close> has
  exactly \<open>length\<close> entries; the entries at positions \<open>start..end\<close> are 0, the entry \<open>k\<close>
  steps before the span start is \<open>-k\<close>, and the entry \<open>k\<close> steps after the span end is \<open>k\<close>.
\<close>

theorem get_positions_spec:
  assumes "0 \<le> s" "s \<le> e" "e < l"
  shows "length (get_positions s e l) = nat l
       \<and> (\<forall>i. s \<le> i \<and> i \<le> e \<longrightarrow> get_positions s e l ! nat i = 0)
       \<and> (\<forall>k. 1 \<le> k \<and> k \<le> s \<longrightarrow> get_positions s e l ! nat (s - k) = - k)
       \<and> (\<forall>k. 1 \<le> k \<and> e + k < l \<longrightarrow> get_positions s e l ! nat (e + k) = k)"
proof (intro conjI allI impI)
  show "length (get_positions s e l) = nat l"
    using assms by (rule length_get_positions)
next
  fix i assume "s \<le> i \<and> i \<le> e"
  then show "get_positions s e l ! nat i = 0"
    using assms get_positions_inside [of s i e l] by simp
next
  fix k assume "1 \<le> k \<and> k \<le> s"
  then show "get_positions s e l ! nat (s - k) = - k"
    using assms get_positions_before [of "s - k" s e l] by simp
next
  fix k assume "1 \<le> k \<and> e + k < l"
  then show "get_positions s e l ! nat (e + k) = k"
    using assms get_positions_after [of s e "e + k" l] by simp
qed

theorem get_positions_spec_witness:
  "get_positions 1 2 5 = [-1, 0, 0, 1, 2]
   \<and> length (get_positions 1 2 5) = 5
   \<and> get_positions 1 2 5 ! 1 = 0 \<and> get_positions 1 2 5 ! 2 = 0
   \<and> get_positions 1 2 5 ! 0 = - 1
   \<and> get_positions 1 2 5 ! 3 = 1 \<and> get_positions 1 2 5 ! 4 = 2"
proof -
  have v: "get_positions 1 2 5 = [-1, 0, 0, 1, 2]"
    by (simp add: get_positions_def py_range_def py_repeat_def upto.simps numeral_2_eq_2)
  have h: "(0::int) \<le> 1" "(1::int) \<le> 2" "(2::int) < 5"
    by simp_all
  note t = get_positions_spec [OF h]
  have len: "length (get_positions 1 2 5) = 5"
    using t by simp
  have inside: "1 \<le> i \<and> i \<le> 2 \<longrightarrow> get_positions 1 2 5 ! nat i = 0" for i
    using t by blast
  have before: "1 \<le> k \<and> k \<le> 1 \<longrightarrow> get_positions 1 2 5 ! nat (1 - k) = - k" for k
    using t by blast
  have after: "1 \<le> k \<and> 2 + k < 5 \<longrightarrow> get_positions 1 2 5 ! nat (2 + k) = k" for k
    using t by blast
  show ?thesis
    using v len inside [of 1] inside [of 2] before [of 1] after [of 1] after [of 2] by simp
qed

section \<open>Batcher.sort_all\<close>

text \<open>
  \<^verbatim>\<open>unsorted_all = [lens] + [range(len(lens))] + list(batch)
sorted_all = [list(t) for t in zip(*sorted(zip(*unsorted_all), reverse=True))]
return sorted_all[2:], sorted_all[1]\<close>

  \<open>batch\<close> is a list of fields (columns), each holding one value per example.
  \<open>zip(*unsorted_all)\<close> builds one tuple \<open>(len, position, field values...)\<close> per example,
  truncated to the shortest column. Python compares tuples lexicographically; the positions
  are pairwise distinct, so a comparison is always decided by \<open>(len, position)\<close> and never
  reaches a field value. A row is therefore modelled as that key paired with the field values.
  \<open>sorted(..., reverse=True)\<close> is the stable descending sort: reverse, sort ascending stably,
  reverse again. With no rows \<open>sorted_all\<close> is empty and \<open>sorted_all[1]\<close> raises IndexError.
\<close>

type_synonym 'a row = "(nat \<times> nat) \<times> 'a list"

definition zip_rows :: "nat list \<Rightarrow> 'a list list \<Rightarrow> 'a row list" where
  "zip_rows lens batch =
     map (\<lambda>i. ((lens ! i, i), map (\<lambda>field. field ! i) batch))
         [0..<fold min (map length batch) (length lens)]"

definition sorted_reverse :: "'a row list \<Rightarrow> 'a row list" where
  "sorted_reverse rows = rev (sort_key fst (rev rows))"

definition sort_all :: "'a list list \<Rightarrow> nat list \<Rightarrow> py_error + ('a list list \<times> nat list)" where
  "sort_all batch lens =
    (let sorted_rows = sorted_reverse (zip_rows lens batch) in
     if sorted_rows = [] then Inl IndexError
     else Inr (map (\<lambda>j. map (\<lambda>r. snd r ! j) sorted_rows) [0..<length batch],
               map (\<lambda>r. snd (fst r)) sorted_rows))"

text \<open>
  The inverse operation the specification describes for the consumers of a batch: the item
  at sorted position \<open>i\<close> is written back at position \<open>orig_idx[i]\<close> of a buffer.
\<close>

definition restore_order :: "nat list \<Rightarrow> 'a list \<Rightarrow> 'a list \<Rightarrow> 'a list" where
  "restore_order orig_idx items buf = fold (\<lambda>(p, y) acc. acc[p := y]) (zip orig_idx items) buf"


lemma fold_min_same: "\<forall>l\<in>set ls. l = n \<Longrightarrow> fold min ls (n::nat) = n"
  by (induction ls) auto

lemma zip_rows_equal_lengths:
  assumes "\<forall>f\<in>set batch. length f = length lens"
  shows "zip_rows lens batch =
         map (\<lambda>i. ((lens ! i, i), map (\<lambda>field. field ! i) batch)) [0..<length lens]"
proof -
  have "fold min (map length batch) (length lens) = length lens"
    using assms by (intro fold_min_same) auto
  then show ?thesis by (simp add: zip_rows_def)
qed

lemma mset_sorted_reverse: "mset (sorted_reverse rows) = mset rows"
  by (simp add: sorted_reverse_def)

lemma set_sorted_reverse: "set (sorted_reverse rows) = set rows"
  by (simp add: sorted_reverse_def)

lemma length_sorted_reverse: "length (sorted_reverse rows) = length rows"
  by (simp add: sorted_reverse_def)

lemma sorted_reverse_keys: "sorted (rev (map fst (sorted_reverse rows)))"
  by (simp add: sorted_reverse_def rev_map)

lemma zip_rows_idx: "map (\<lambda>r. snd (fst r)) (zip_rows lens batch)
    = [0..<fold min (map length batch) (length lens)]"
  by (simp add: zip_rows_def comp_def)

lemma mset_orig_idx:
  "mset (map (\<lambda>r. snd (fst r)) (sorted_reverse (zip_rows lens batch)))
     = mset [0..<fold min (map length batch) (length lens)]"
proof -
  have "mset (map (\<lambda>r. snd (fst r)) (sorted_reverse (zip_rows lens batch)))
      = image_mset (\<lambda>r. snd (fst r)) (mset (sorted_reverse (zip_rows lens batch)))"
    by simp
  also have "\<dots> = image_mset (\<lambda>r. snd (fst r)) (mset (zip_rows lens batch))"
    by (simp only: mset_sorted_reverse)
  also have "\<dots> = mset (map (\<lambda>r. snd (fst r)) (zip_rows lens batch))"
    by simp
  finally show ?thesis by (simp only: zip_rows_idx)
qed

lemma zip_rows_shape:
  "r \<in> set (zip_rows lens batch) \<Longrightarrow>
     fst (fst r) = lens ! snd (fst r) \<and> snd r = map (\<lambda>field. field ! snd (fst r)) batch"
  by (auto simp: zip_rows_def)

lemma distinct_keys_sorted_reverse:
  "distinct (map fst (sorted_reverse (zip_rows lens batch)))"
proof -
  have "distinct (map (\<lambda>r. snd (fst r)) (sorted_reverse (zip_rows lens batch)))"
    using mset_eq_imp_distinct_iff [OF mset_orig_idx [of lens batch]] by simp
  then have "distinct (map snd (map fst (sorted_reverse (zip_rows lens batch))))"
    by (simp add: comp_def)
  then show ?thesis
    using distinct_map [of snd "map fst (sorted_reverse (zip_rows lens batch))"] by blast
qed

lemma sorted_reverse_strict:
  assumes "i < j" "j < length (zip_rows lens batch)"
  shows "fst (sorted_reverse (zip_rows lens batch) ! j) < fst (sorted_reverse (zip_rows lens batch) ! i)"
proof -
  let ?s = "sorted_reverse (zip_rows lens batch)"
  let ?ks = "map fst ?s"
  have len: "length ?ks = length (zip_rows lens batch)"
    by (simp add: length_sorted_reverse)
  have "sorted (rev ?ks)" by (rule sorted_reverse_keys)
  moreover have "distinct (rev ?ks)" using distinct_keys_sorted_reverse [of lens batch] by simp
  ultimately have "sorted_wrt (<) (rev ?ks)"
    by (simp only: strict_sorted_iff)
  then have "sorted_wrt (\<lambda>x y. y < x) ?ks"
    by (simp only: sorted_wrt_rev)
  then have "?ks ! j < ?ks ! i"
    using assms len by (simp add: sorted_wrt_iff_nth_less)
  then show ?thesis using assms len by simp
qed

lemma fold_restore:
  "length buf = length xs \<Longrightarrow> set idx \<subseteq> {..<length xs} \<Longrightarrow>
   fold (\<lambda>(p, y) acc. acc[p := y]) (zip idx (map (\<lambda>i. xs ! i) idx)) buf
     = map (\<lambda>p. if p \<in> set idx then xs ! p else buf ! p) [0..<length xs]"
proof (induction idx arbitrary: buf)
  case Nil
  have "map (\<lambda>p. buf ! p) [0..<length buf] = buf"
    by (rule map_nth)
  then show ?case using Nil by simp
next
  case (Cons a idx)
  have "fold (\<lambda>(p, y) acc. acc[p := y]) (zip (a # idx) (map (\<lambda>i. xs ! i) (a # idx))) buf
      = fold (\<lambda>(p, y) acc. acc[p := y]) (zip idx (map (\<lambda>i. xs ! i) idx)) (buf[a := xs ! a])"
    by simp
  also have "\<dots> = map (\<lambda>p. if p \<in> set idx then xs ! p else buf[a := xs ! a] ! p) [0..<length xs]"
    using Cons.prems by (intro Cons.IH) auto
  also have "\<dots> = map (\<lambda>p. if p \<in> set (a # idx) then xs ! p else buf ! p) [0..<length xs]"
  proof (rule map_cong [OF refl])
    fix p assume "p \<in> set [0..<length xs]"
    then have "p < length buf" using Cons.prems by simp
    then show "(if p \<in> set idx then xs ! p else buf[a := xs ! a] ! p)
             = (if p \<in> set (a # idx) then xs ! p else buf ! p)"
      by (cases "p = a") simp_all
  qed
  finally show ?case .
qed

lemma restore_order_permutation:
  assumes "mset idx = mset [0..<length xs]" "length buf = length xs"
  shows "restore_order idx (map (\<lambda>i. xs ! i) idx) buf = xs"
proof -
  have s: "set idx = {..<length xs}"
    using mset_eq_setD [OF assms(1)] by (simp add: atLeast0LessThan)
  have "restore_order idx (map (\<lambda>i. xs ! i) idx) buf
      = map (\<lambda>p. if p \<in> set idx then xs ! p else buf ! p) [0..<length xs]"
    unfolding restore_order_def using assms(2) s by (intro fold_restore) auto
  also have "\<dots> = map (\<lambda>p. xs ! p) [0..<length xs]"
    using s by (intro map_cong [OF refl]) simp
  also have "\<dots> = xs"
    by (rule map_nth)
  finally show ?thesis .
qed


lemma sort_all_result:
  assumes ne: "lens \<noteq> []" and eq: "\<forall>f\<in>set batch. length f = length lens"
  shows "\<exists>orig_idx.
           sort_all batch lens = Inr (map (\<lambda>f. map (\<lambda>i. f ! i) orig_idx) batch, orig_idx)
         \<and> mset orig_idx = mset [0..<length lens]
         \<and> (\<forall>i j. i < j \<and> j < length lens \<longrightarrow>
               (lens ! (orig_idx ! j), orig_idx ! j) < (lens ! (orig_idx ! i), orig_idx ! i))"
proof -
  let ?rows = "zip_rows lens batch"
  let ?s = "sorted_reverse ?rows"
  let ?idx = "map (\<lambda>r. snd (fst r)) ?s"
  have n: "fold min (map length batch) (length lens) = length lens"
    using eq by (intro fold_min_same) auto
  have len_rows: "length ?rows = length lens"
    by (simp add: zip_rows_def n)
  have len_s: "length ?s = length lens"
    by (simp add: length_sorted_reverse len_rows)
  have nonempty: "?s \<noteq> []"
    using ne len_s by auto
  have shape: "fst (fst r) = lens ! snd (fst r) \<and> snd r = map (\<lambda>field. field ! snd (fst r)) batch"
    if "r \<in> set ?s" for r
    using that zip_rows_shape [of r lens batch] by (simp add: set_sorted_reverse)
  have fields: "map (\<lambda>j. map (\<lambda>r. snd r ! j) ?s) [0..<length batch]
              = map (\<lambda>f. map (\<lambda>i. f ! i) ?idx) batch"
  proof (rule nth_equalityI)
    show "length (map (\<lambda>j. map (\<lambda>r. snd r ! j) ?s) [0..<length batch])
        = length (map (\<lambda>f. map (\<lambda>i. f ! i) ?idx) batch)"
      by simp
  next
    fix j assume "j < length (map (\<lambda>j. map (\<lambda>r. snd r ! j) ?s) [0..<length batch])"
    then have j: "j < length batch" by simp
    have "map (\<lambda>r. snd r ! j) ?s = map (\<lambda>r. batch ! j ! snd (fst r)) ?s"
    proof (rule map_cong [OF refl])
      fix r assume "r \<in> set ?s"
      then have "snd r = map (\<lambda>field. field ! snd (fst r)) batch"
        using shape by blast
      then show "snd r ! j = batch ! j ! snd (fst r)"
        using j by simp
    qed
    then show "map (\<lambda>j. map (\<lambda>r. snd r ! j) ?s) [0..<length batch] ! j
             = map (\<lambda>f. map (\<lambda>i. f ! i) ?idx) batch ! j"
      using j by (simp add: comp_def)
  qed
  have res: "sort_all batch lens = Inr (map (\<lambda>f. map (\<lambda>i. f ! i) ?idx) batch, ?idx)"
    using nonempty fields by (simp add: sort_all_def Let_def)
  have perm: "mset ?idx = mset [0..<length lens]"
    using mset_orig_idx [of lens batch] by (simp only: n)
  have order: "(lens ! (?idx ! j), ?idx ! j) < (lens ! (?idx ! i), ?idx ! i)"
    if "i < j" "j < length lens" for i j
  proof -
    have lt: "fst (?s ! j) < fst (?s ! i)"
      using that len_rows by (intro sorted_reverse_strict) simp_all
    have key: "fst (?s ! k) = (lens ! (?idx ! k), ?idx ! k)" if "k < length lens" for k
    proof -
      have "?s ! k \<in> set ?s" using that len_s by simp
      then have "fst (fst (?s ! k)) = lens ! snd (fst (?s ! k))"
        using shape by blast
      then show ?thesis
        using that len_s by (simp add: prod_eq_iff)
    qed
    show ?thesis
      using lt key [of i] key [of j] that by simp
  qed
  show ?thesis
    using res perm order by blast
qed

lemma fold_min_zero: "fold min ls (0::nat) = 0"
  by (induction ls) auto

lemma sort_all_empty: "sort_all batch [] = Inl IndexError"
  by (simp add: sort_all_def zip_rows_def sorted_reverse_def fold_min_zero)

text \<open>
  The tie-break the specification words: of two examples of equal length, the one earlier in
  pre-sort order comes earlier in sorted order.
\<close>

definition ties_keep_order :: "nat list \<Rightarrow> nat list \<Rightarrow> bool" where
  "ties_keep_order lens orig_idx =
     (\<forall>i<length orig_idx. \<forall>j<length orig_idx.
        i < j \<and> lens ! (orig_idx ! i) = lens ! (orig_idx ! j) \<longrightarrow> orig_idx ! i < orig_idx ! j)"

text \<open>
  C4 as worded fails: two examples of equal length come out in reversed order, because the
  position is the second component of the descending sort key.
\<close>

theorem sort_all_stable_counterexample:
  "sort_all [[10, 20 :: int]] [3, 3] = Inr ([[20, 10]], [1, 0])
   \<and> \<not> ties_keep_order [3, 3] [1, 0]"
proof -
  have "sort_all [[10, 20 :: int]] [3, 3] = Inr ([[20, 10]], [1, 0])"
    by code_simp
  moreover have "\<not> ties_keep_order [3, 3] [1, 0]"
  proof
    assume a: "ties_keep_order [3, 3] [1, 0]"
    have "[1, 0 :: nat] ! 0 < [1, 0] ! 1"
      by (rule a [unfolded ties_keep_order_def, rule_format, of 0 1]) simp_all
    then show False by simp
  qed
  ultimately show ?thesis by simp
qed

text \<open>
  C4, amended. For a non-empty batch whose fields all hold one value per example,
  \<open>sort_all\<close> returns the fields reordered by a permutation \<open>orig_idx\<close> of the positions,
  entry \<open>i\<close> being the pre-sort position of the example now at sorted position \<open>i\<close>; lengths
  are in descending order, and among examples of equal length the one LATER in pre-sort order
  comes first.
\<close>

theorem sort_all_descending:
  assumes "lens \<noteq> []" and "\<forall>f\<in>set batch. length f = length lens"
  shows "\<exists>sorted_fields orig_idx.
           sort_all batch lens = Inr (sorted_fields, orig_idx)
         \<and> mset orig_idx = mset [0..<length lens]
         \<and> sorted_fields = map (\<lambda>f. map (\<lambda>i. f ! i) orig_idx) batch
         \<and> (\<forall>i j. i < j \<and> j < length lens \<longrightarrow> lens ! (orig_idx ! j) \<le> lens ! (orig_idx ! i))
         \<and> (\<forall>i j. i < j \<and> j < length lens \<and> lens ! (orig_idx ! i) = lens ! (orig_idx ! j)
                \<longrightarrow> orig_idx ! j < orig_idx ! i)"
proof -
  obtain orig_idx where
    r: "sort_all batch lens = Inr (map (\<lambda>f. map (\<lambda>i. f ! i) orig_idx) batch, orig_idx)" and
    p: "mset orig_idx = mset [0..<length lens]" and
    o: "\<And>i j. i < j \<and> j < length lens \<Longrightarrow>
          (lens ! (orig_idx ! j), orig_idx ! j) < (lens ! (orig_idx ! i), orig_idx ! i)"
    using sort_all_result [OF assms] by blast
  have "lens ! (orig_idx ! j) \<le> lens ! (orig_idx ! i)" if "i < j \<and> j < length lens" for i j
    using o [OF that] by (auto simp: less_prod_def')
  moreover have "orig_idx ! j < orig_idx ! i"
    if "i < j \<and> j < length lens \<and> lens ! (orig_idx ! i) = lens ! (orig_idx ! j)" for i j
    using o [of i j] that by (auto simp: less_prod_def')
  ultimately show ?thesis
    using r p by blast
qed

theorem sort_all_descending_witness:
  "sort_all [[10, 20, 30 :: int]] [3, 5, 3] = Inr ([[20, 30, 10]], [1, 2, 0])
   \<and> mset [1, 2, 0 :: nat] = mset [0..<length [3, 5, 3 :: nat]]"
proof -
  have v: "sort_all [[10, 20, 30 :: int]] [3, 5, 3] = Inr ([[20, 30, 10]], [1, 2, 0])"
    by code_simp
  have h1: "[3, 5, 3 :: nat] \<noteq> []" by simp
  have h2: "\<forall>f\<in>set [[10, 20, 30 :: int]]. length f = length [3, 5, 3 :: nat]" by simp
  obtain s oi where a: "sort_all [[10, 20, 30 :: int]] [3, 5, 3] = Inr (s, oi)"
    and b: "mset oi = mset [0..<length [3, 5, 3 :: nat]]"
    using sort_all_descending [OF h1 h2] by blast
  have c: "oi = [1, 2, 0]"
    using a v by simp
  show ?thesis
    by (rule conjI [OF v b [unfolded c]])
qed

text \<open>
  C7. Writing the item at sorted position \<open>i\<close> of every sorted field back at position
  \<open>orig_idx[i]\<close> gives back the fields in their pre-sort order, whatever the buffer held.
\<close>

theorem sort_all_round_trip:
  assumes "sort_all batch lens = Inr (sorted_fields, orig_idx)"
    and "\<forall>f\<in>set batch. length f = length lens"
    and "length buf = length lens"
  shows "map (\<lambda>items. restore_order orig_idx items buf) sorted_fields = batch"
proof -
  have ne: "lens \<noteq> []"
    using assms(1) sort_all_empty [of batch] by auto
  obtain idx where
    r: "sort_all batch lens = Inr (map (\<lambda>f. map (\<lambda>i. f ! i) idx) batch, idx)" and
    p: "mset idx = mset [0..<length lens]"
    using sort_all_result [OF ne assms(2)] by blast
  have s: "sorted_fields = map (\<lambda>f. map (\<lambda>i. f ! i) orig_idx) batch" and i: "idx = orig_idx"
    using r assms(1) by simp_all
  have "restore_order orig_idx (map (\<lambda>i. f ! i) orig_idx) buf = f" if "f \<in> set batch" for f
  proof -
    have "length f = length lens" using that assms(2) by blast
    then show ?thesis
      using p i assms(3) by (intro restore_order_permutation) simp_all
  qed
  then have "map (\<lambda>f. restore_order orig_idx (map (\<lambda>i. f ! i) orig_idx) buf) batch = batch"
    by (simp add: map_idI)
  then show ?thesis
    by (simp add: s comp_def)
qed

theorem sort_all_round_trip_witness:
  "sort_all [[10, 20, 30 :: int]] [3, 5, 3] = Inr ([[20, 30, 10]], [1, 2, 0])
   \<and> map (\<lambda>items. restore_order [1, 2, 0] items [0, 0, 0]) [[20, 30, 10]] = [[10, 20, 30 :: int]]"
proof -
  have v: "sort_all [[10, 20, 30 :: int]] [3, 5, 3] = Inr ([[20, 30, 10]], [1, 2, 0])"
    by code_simp
  have h2: "\<forall>f\<in>set [[10, 20, 30 :: int]]. length f = length [3, 5, 3 :: nat]" by simp
  have h3: "length [0, 0, 0 :: int] = length [3, 5, 3 :: nat]" by simp
  show ?thesis
    using v sort_all_round_trip [OF v h2 h3] by simp
qed

section \<open>Batcher: readying a batch\<close>

text \<open>
  Exceptions propagate through sequenced calls: \<open>py_bind\<close> stops at the first error, and
  \<open>py_mapM\<close> runs a loop body over a list, left to right, stopping at the first error.
\<close>

definition py_bind :: "py_error + 'a \<Rightarrow> ('a \<Rightarrow> py_error + 'b) \<Rightarrow> py_error + 'b" where
  "py_bind m f = (case m of Inl e \<Rightarrow> Inl e | Inr x \<Rightarrow> f x)"

fun py_mapM :: "('a \<Rightarrow> py_error + 'b) \<Rightarrow> 'a list \<Rightarrow> py_error + 'b list" where
  "py_mapM f [] = Inr []"
| "py_mapM f (x # xs) = py_bind (f x) (\<lambda>y. py_bind (py_mapM f xs) (\<lambda>ys. Inr (y # ys)))"

text \<open>
  \<open>list(zip(*rows))\<close>: the columns of a list of tuples, truncated to the shortest tuple; no
  rows give no columns.
\<close>

fun py_zip_star :: "'a list list \<Rightarrow> 'a list list" where
  "py_zip_star [] = []"
| "py_zip_star (t # ts) =
     map (\<lambda>j. map (\<lambda>u. u ! j) (t # ts)) [0..<fold min (map length ts) (length t)]"

text \<open>
  The components of the supplemental tuples: an integer id, or a set of relation ids (its
  elements in iteration order). \<open>PAD_ID\<close> and \<open>UNK_ID\<close> come from \<open>utils.constant\<close>, which is
  not part of the sources, and are parameters.
\<close>

datatype cell = IntCell int | SetCell "int list"

record constants =
  PAD_ID :: int
  UNK_ID :: int

text \<open>
  The attributes of a Batcher that readying a batch reads. \<open>rel2id\<close> is read by
  \<open>ready_relation_masks_batch\<close> and \<open>ready_binary_labels_batch\<close> but is not assigned by
  \<open>Batcher.__init__\<close>: it is \<open>None\<close> on a Batcher as constructed, and reading it then raises
  AttributeError.
\<close>

record batcher =
  b_is_eval :: bool
  b_rel2id :: "(string \<times> int) list option"
  b_constant :: constants

text \<open>
  A batch as \<open>create_batches\<close> builds it: \<open>base\<close> holds one 7-tuple per example (tokens, pos,
  ner, deprel, subj_positions, obj_positions, activated_relations), \<open>supplemental\<close> maps a
  field name to one tuple per example, in insertion order.
\<close>

record data_batch =
  db_base :: "int list list list"
  db_supplemental :: "(string \<times> cell list list) list"

datatype readied_supp =
    LabelTensor "int list list"
  | TripleTensor "int list" "int list" "int list"

record readied_batch =
  rb_words :: "int list list"
  rb_masks :: "bool list list"
  rb_pos :: "int list list"
  rb_ner :: "int list list"
  rb_deprel :: "int list list"
  rb_subj_positions :: "int list list"
  rb_obj_positions :: "int list list"
  rb_rels :: "int list list"
  rb_orig_idx :: "nat list"
  rb_sentence_lengths :: "nat list"
  rb_supplemental :: "(string \<times> readied_supp) list"

text \<open>
  \<^verbatim>\<open>token_len = max(len(x) for x in tokens_list)
tokens = torch.LongTensor(batch_size, token_len).fill_(constant.PAD_ID)
for i, s in enumerate(tokens_list):
    tokens[i, :len(s)] = torch.LongTensor(s)\<close>
  \<open>max\<close> of no lengths raises ValueError. A LongTensor holds 64-bit integers: a value outside
  that range raises RuntimeError, in \<open>fill_\<close> and in \<open>torch.LongTensor(s)\<close>. In each round of the
  loop the right-hand side is built first, then the row is written, and a row index beyond
  \<open>batch_size\<close> raises IndexError.
\<close>

definition int64_ok :: "int \<Rightarrow> bool" where
  "int64_ok x \<longleftrightarrow> - (2 ^ 63) \<le> x \<and> x < 2 ^ 63"

definition torch_long :: "int list \<Rightarrow> py_error + int list" where
  "torch_long s = (if list_all int64_ok s then Inr s else Inl RuntimeError)"

definition get_long_tensor :: "constants \<Rightarrow> int list list \<Rightarrow> nat \<Rightarrow> py_error + int list list" where
  "get_long_tensor c tokens_list batch_size =
     (if tokens_list = [] then Inl ValueError
      else let token_len = fold max (map length tokens_list) 0 in
        if \<not> int64_ok (PAD_ID c) then Inl RuntimeError
        else
          py_bind (py_mapM (\<lambda>(i, s). py_bind (torch_long s) (\<lambda>row.
                      if batch_size \<le> i then Inl IndexError
                      else Inr (row @ replicate (token_len - length s) (PAD_ID c))))
                    (enumerate 0 tokens_list))
            (\<lambda>rows. Inr (rows @ replicate (batch_size - length tokens_list)
                                    (replicate token_len (PAD_ID c)))))"

text \<open>
  \<^verbatim>\<open>[constant.UNK_ID if x != constant.UNK_ID and np.random.random() < dropout else x
 for x in tokens]\<close>
  The outcome of \<open>np.random.random() < dropout\<close> at token position \<open>k\<close> is the parameter
  \<open>coin k\<close>.
\<close>

definition word_dropout :: "constants \<Rightarrow> (nat \<Rightarrow> bool) \<Rightarrow> int list \<Rightarrow> int list" where
  "word_dropout c coin toks =
     map (\<lambda>(k, x). if x \<noteq> UNK_ID c \<and> coin k then UNK_ID c else x) (enumerate 0 toks)"

text \<open>
  \<open>ready_base_batch\<close>: the columns are sorted by sentence length, the words go through word
  dropout when training, every column is padded, and the lengths returned are the ones
  computed BEFORE sorting.
\<close>

definition ready_base_batch ::
  "batcher \<Rightarrow> (nat \<Rightarrow> nat \<Rightarrow> bool) \<Rightarrow> int list list list \<Rightarrow> nat \<Rightarrow> py_error + readied_batch" where
  "ready_base_batch self coin base_batch batch_size =
    (let batch = py_zip_star base_batch in
     if length batch \<noteq> 7 then Inl AssertionError
     else let lens = map length (batch ! 0) in
       py_bind (sort_all batch lens) (\<lambda>(batch, orig_idx).
         let c = b_constant self;
             words = (if \<not> b_is_eval self
                      then map (\<lambda>(s, sent). word_dropout c (coin s) sent) (enumerate 0 (batch ! 0))
                      else batch ! 0)
         in
         py_bind (get_long_tensor c words batch_size) (\<lambda>words.
         py_bind (get_long_tensor c (batch ! 1) batch_size) (\<lambda>pos.
         py_bind (get_long_tensor c (batch ! 2) batch_size) (\<lambda>ner.
         py_bind (get_long_tensor c (batch ! 3) batch_size) (\<lambda>deprel.
         py_bind (get_long_tensor c (batch ! 4) batch_size) (\<lambda>subj_positions.
         py_bind (get_long_tensor c (batch ! 5) batch_size) (\<lambda>obj_positions.
         py_bind (get_long_tensor c (last batch) batch_size) (\<lambda>rels.
           Inr \<lparr> rb_words = words, rb_masks = map (map (\<lambda>w. w = 0)) words,
                 rb_pos = pos, rb_ner = ner, rb_deprel = deprel,
                 rb_subj_positions = subj_positions, rb_obj_positions = obj_positions,
                 rb_rels = rels, rb_orig_idx = orig_idx,
                 rb_sentence_lengths = lens, rb_supplemental = [] \<rparr>)))))))))"

text \<open>
  numpy indexing of a vector of \<open>n\<close> entries: a negative index counts from the end, an index
  outside \<open>[-n, n)\<close> raises IndexError. \<open>np.zeros\<close> of a negative size raises ValueError.
\<close>

definition np_index :: "int \<Rightarrow> int \<Rightarrow> py_error + nat" where
  "np_index n i = (if i < - n \<or> n \<le> i then Inl IndexError
                   else Inr (nat (if i < 0 then i + n else i)))"

definition np_zeros :: "int \<Rightarrow> py_error + int list" where
  "np_zeros n = (if n < 0 then Inl ValueError else Inr (replicate (nat n) 0))"

text \<open>
  \<^verbatim>\<open>num_rel = len(self.rel2id)
batch = list(zip(*mask_batch))
known_relations, _ = self.sort_all(batch, sentence_lengths)
labels = []
for sample_labels in known_relations[0]:
    binary_labels = np.zeros(num_rel, dtype=np.float32)
    binary_labels[list(sample_labels)] = 1.
    labels.append(binary_labels)\<close>
  The float32 entries 0. and 1. are written as the integers 0 and 1.
\<close>

fun known_relations_vector :: "int \<Rightarrow> cell \<Rightarrow> py_error + int list" where
  "known_relations_vector num_rel (SetCell sample_labels) =
     py_bind (np_zeros num_rel) (\<lambda>binary_labels.
     py_bind (py_mapM (np_index num_rel) sample_labels) (\<lambda>positions.
       Inr (fold (\<lambda>p v. v[p := 1]) positions binary_labels)))"
| "known_relations_vector num_rel (IntCell _) = Inl TypeError"

definition ready_relation_masks_batch ::
  "batcher \<Rightarrow> cell list list \<Rightarrow> nat list \<Rightarrow> py_error + readied_supp" where
  "ready_relation_masks_batch self mask_batch sentence_lengths =
    (case b_rel2id self of
       None \<Rightarrow> Inl (AttributeError ''rel2id'')
     | Some rel2id \<Rightarrow>
         let num_rel = int (length rel2id); batch = py_zip_star mask_batch in
         py_bind (sort_all batch sentence_lengths) (\<lambda>(known_relations, _).
           if known_relations = [] then Inl IndexError
           else py_bind (py_mapM (known_relations_vector num_rel) (known_relations ! 0))
                  (\<lambda>labels. Inr (LabelTensor labels))))"

text \<open>
  \<^verbatim>\<open>num_rel = len(self.rel2id) - 1
batch = list(zip(*label_batch))
batch_labels, _ = self.sort_all(batch, sentence_lengths)
labels = []
for label in batch_labels[0]:
    binary_labels = np.zeros(num_rel, dtype=np.float32)
    # don't add no_relation index because that would be out of bounds.
    if label < num_rel:
        binary_labels[label] = 1.
    labels.append(binary_labels)\<close>
\<close>

fun binary_label_vector :: "int \<Rightarrow> cell \<Rightarrow> py_error + int list" where
  "binary_label_vector num_rel (IntCell label) =
     py_bind (np_zeros num_rel) (\<lambda>binary_labels.
       if label < num_rel
       then py_bind (np_index num_rel label) (\<lambda>p. Inr (binary_labels[p := 1]))
       else Inr binary_labels)"
| "binary_label_vector num_rel (SetCell _) = Inl TypeError"

definition ready_binary_labels_batch ::
  "batcher \<Rightarrow> cell list list \<Rightarrow> nat list \<Rightarrow> py_error + readied_supp" where
  "ready_binary_labels_batch self label_batch sentence_lengths =
    (case b_rel2id self of
       None \<Rightarrow> Inl (AttributeError ''rel2id'')
     | Some rel2id \<Rightarrow>
         let num_rel = int (length rel2id) - 1; batch = py_zip_star label_batch in
         py_bind (sort_all batch sentence_lengths) (\<lambda>(batch_labels, _).
           if batch_labels = [] then Inl IndexError
           else py_bind (py_mapM (binary_label_vector num_rel) (batch_labels ! 0))
                  (\<lambda>labels. Inr (LabelTensor labels))))"

text \<open>
  \<^verbatim>\<open>batch = list(zip(*triple_batch))
sorted_batch, _ = self.sort_all(batch, sentence_lengths)
subjects, relations, objects = sorted_batch\<close>
  Unpacking anything but three columns raises ValueError; \<open>torch.LongTensor\<close> of a column
  raises TypeError on a component that is no integer and RuntimeError on one outside the
  64-bit range.
\<close>

fun long_of_cell :: "cell \<Rightarrow> py_error + int" where
  "long_of_cell (IntCell i) = (if int64_ok i then Inr i else Inl RuntimeError)"
| "long_of_cell (SetCell _) = Inl TypeError"

definition ready_triple_batch :: "cell list list \<Rightarrow> nat list \<Rightarrow> py_error + readied_supp" where
  "ready_triple_batch triple_batch sentence_lengths =
    (let batch = py_zip_star triple_batch in
     py_bind (sort_all batch sentence_lengths) (\<lambda>(sorted_batch, _).
       case sorted_batch of
         [subjects, relations, objects] \<Rightarrow>
           py_bind (py_mapM long_of_cell subjects) (\<lambda>subjects.
           py_bind (py_mapM long_of_cell relations) (\<lambda>relations.
           py_bind (py_mapM long_of_cell objects) (\<lambda>objects.
             Inr (TripleTensor subjects relations objects))))
       | _ \<Rightarrow> Inl ValueError))"

text \<open>
  \<^verbatim>\<open>for name, supplemental_batch in batch['supplemental'].items():
    if name == 'relation_masks':
        readied_supplemental[name] = self.ready_relation_masks_batch(...)
    elif name == 'binary_labels':
        readied_supplemental[name] = self.ready_binary_labels_batch(...)
    elif name == 'triple':
        readied_supplemental[name] = self.ready_triple_batch(...)\<close>
  A field of any other name is skipped.
\<close>

fun ready_supplemental ::
  "batcher \<Rightarrow> nat list \<Rightarrow> (string \<times> cell list list) list
     \<Rightarrow> (string \<times> readied_supp) list \<Rightarrow> py_error + (string \<times> readied_supp) list" where
  "ready_supplemental self lens [] readied = Inr readied"
| "ready_supplemental self lens ((name, supplemental_batch) # rest) readied =
     (if name = ''relation_masks'' then
        py_bind (ready_relation_masks_batch self supplemental_batch lens)
          (\<lambda>t. ready_supplemental self lens rest (AList.update name t readied))
      else if name = ''binary_labels'' then
        py_bind (ready_binary_labels_batch self supplemental_batch lens)
          (\<lambda>t. ready_supplemental self lens rest (AList.update name t readied))
      else if name = ''triple'' then
        py_bind (ready_triple_batch supplemental_batch lens)
          (\<lambda>t. ready_supplemental self lens rest (AList.update name t readied))
      else ready_supplemental self lens rest readied)"

definition ready_data_batch ::
  "batcher \<Rightarrow> (nat \<Rightarrow> nat \<Rightarrow> bool) \<Rightarrow> data_batch \<Rightarrow> py_error + readied_batch" where
  "ready_data_batch self coin batch =
    (let batch_size = length (db_base batch) in
     py_bind (ready_base_batch self coin (db_base batch) batch_size) (\<lambda>readied_batch.
     py_bind (ready_supplemental self (rb_sentence_lengths readied_batch)
                (db_supplemental batch) [])
       (\<lambda>supp. Inr (readied_batch \<lparr> rb_supplemental := supp \<rparr>))))"

text \<open>
  \<open>Batcher.__init__\<close> assigns \<open>id2label\<close>, \<open>triple2id_fn\<close>, \<open>batch_size\<close>, \<open>is_eval\<close>, \<open>config\<close>,
  \<open>labels\<close>, \<open>num_examples\<close> and \<open>batches\<close>. Of the attributes read while readying a batch it
  sets \<open>is_eval\<close>; \<open>rel2id\<close> is not among the attributes it assigns.
\<close>

definition batcher_init :: "bool \<Rightarrow> constants \<Rightarrow> batcher" where
  "batcher_init is_eval c = \<lparr> b_is_eval = is_eval, b_rel2id = None, b_constant = c \<rparr>"

text \<open>
  A Batcher as \<open>create_iterator\<close> constructs it for an evaluation partition, and a batch of two
  examples with relation masking enabled: \<open>parse_data\<close> and \<open>create_iterator\<close> store the
  known-relations set under the key \<open>relation_masking\<close>.
\<close>

definition ex_batcher :: batcher where
  "ex_batcher = batcher_init True \<lparr> PAD_ID = 0, UNK_ID = 1 \<rparr>"

definition ex_binary_batch :: data_batch where
  "ex_binary_batch =
     \<lparr> db_base = [[[5, 6], [1, 1], [2, 2], [3, 3], [0, 1], [-1, 0], [1, 0]],
                  [[7, 8, 9], [1, 1, 1], [2, 2, 2], [3, 3, 3], [0, 1, 2], [-1, 0, 1], [0, 1]]],
       db_supplemental = [(''triple'', [[IntCell 4, IntCell 0, IntCell 5], [IntCell 4, IntCell 1, IntCell 6]]),
                          (''binary_labels'', [[IntCell 0], [IntCell 1]])] \<rparr>"

definition ex_batch :: data_batch where
  "ex_batch = \<lparr> db_base = [[[5, 6], [1, 1], [2, 2], [3, 3], [0, 1], [-1, 0], [1, 0]],
                            [[7, 8, 9], [1, 1, 1], [2, 2, 2], [3, 3, 3], [0, 1, 2], [-1, 0, 1], [0, 1]]],
                 db_supplemental = [(''triple'', [[IntCell 4, IntCell 0, IntCell 5], [IntCell 4, IntCell 1, IntCell 6]]),
                                    (''relation_masking'', [[SetCell [0]], [SetCell [1, 0]]])] \<rparr>"


lemma py_bind_Inr [simp]: "py_bind (Inr x) f = f x"
  by (simp add: py_bind_def)

lemma py_bind_Inl [simp]: "py_bind (Inl e) f = Inl e"
  by (simp add: py_bind_def)

lemma py_bind_eq_Inr: "py_bind m f = Inr y \<longleftrightarrow> (\<exists>x. m = Inr x \<and> f x = Inr y)"
  by (cases m) simp_all

lemma py_mapM_Inr: "\<forall>x\<in>set xs. f x = Inr (g x) \<Longrightarrow> py_mapM f xs = Inr (map g xs)"
  by (induction xs) simp_all

lemma py_zip_star_singletons:
  assumes "xs \<noteq> []"
  shows "py_zip_star (map (\<lambda>x. [f x]) xs) = [map f xs]"
proof (cases xs)
  case Nil
  then show ?thesis using assms by simp
next
  case (Cons a as)
  have "fold min (map length (map (\<lambda>x. [f x]) as)) (Suc 0) = Suc 0"
    by (intro fold_min_same) simp
  then show ?thesis
    using Cons by (simp add: comp_def)
qed

lemma one_hot_update:
  "p < n \<Longrightarrow> (replicate n (0::int))[p := 1] = map (\<lambda>i. if i = p then 1 else 0) [0..<n]"
  by (intro nth_equalityI) (simp_all add: nth_list_update)

lemma binary_label_vector_in_range:
  assumes "0 \<le> l" "l < int n" "0 < n"
  shows "binary_label_vector (int n - 1) (IntCell l)
       = Inr (map (\<lambda>i. if int i = l then 1 else 0) [0..<n - 1])"
proof (cases "l < int n - 1")
  case True
  have z: "np_zeros (int n - 1) = Inr (replicate (n - 1) 0)"
    using assms by (simp add: np_zeros_def nat_diff_distrib')
  have ix: "np_index (int n - 1) l = Inr (nat l)"
    using assms True by (simp add: np_index_def)
  have "nat l < n - 1" using assms True by linarith
  then have "(replicate (n - 1) (0::int))[nat l := 1]
           = map (\<lambda>i. if i = nat l then 1 else 0) [0..<n - 1]"
    by (rule one_hot_update)
  also have "\<dots> = map (\<lambda>i. if int i = l then 1 else 0) [0..<n - 1]"
    using assms by (intro map_cong [OF refl]) auto
  finally show ?thesis
    using z ix True by simp
next
  case False
  have z: "np_zeros (int n - 1) = Inr (replicate (n - 1) 0)"
    using assms by (simp add: np_zeros_def nat_diff_distrib')
  have "replicate (n - 1) (0::int) = map (\<lambda>i. if int i = l then 1 else 0) [0..<n - 1]"
    using False by (intro nth_equalityI) auto
  then show ?thesis
    using z False by simp
qed


text \<open>
  What \<open>ready_binary_labels_batch\<close> computes on a Batcher to which a \<open>rel2id\<close> attribute of
  \<open>num_relations \<ge> 1\<close> relations has been attached from outside: for a non-empty batch of
  tuples \<open>(label,)\<close> with relation ids as labels, one vector of width \<open>num_relations - 1\<close> per
  example, in the batch's sorted order; the label \<open>num_relations - 1\<close> sets no bit, every other
  label sets exactly the bit at its own index.
\<close>

lemma ready_binary_labels_batch_with_rel2id:
  assumes r: "b_rel2id self = Some rel2id" and n: "rel2id \<noteq> []"
    and lb: "label_batch = map (\<lambda>l. [IntCell l]) labels"
    and ne: "labels \<noteq> []"
    and len: "length sentence_lengths = length labels"
    and rng: "\<forall>l\<in>set labels. 0 \<le> l \<and> l < int (length rel2id)"
  shows "\<exists>sorted_labels orig_idx.
           sort_all [map IntCell labels] sentence_lengths = Inr (sorted_labels, orig_idx)
         \<and> ready_binary_labels_batch self label_batch sentence_lengths
             = Inr (LabelTensor (map (\<lambda>k. map (\<lambda>i. if int i = labels ! k then 1 else 0)
                                              [0..<length rel2id - 1]) orig_idx))"
proof -
  let ?n = "length rel2id"
  let ?col = "map IntCell labels"
  have zs: "py_zip_star label_batch = [?col]"
    unfolding lb using ne by (rule py_zip_star_singletons)
  have lne: "sentence_lengths \<noteq> []"
    using ne len by auto
  have eq: "\<forall>f\<in>set [?col]. length f = length sentence_lengths"
    using len by simp
  obtain orig_idx where
    s: "sort_all [?col] sentence_lengths
          = Inr (map (\<lambda>f. map (\<lambda>i. f ! i) orig_idx) [?col], orig_idx)" and
    p: "mset orig_idx = mset [0..<length sentence_lengths]"
    using sort_all_result [OF lne eq] by blast
  have idx: "k < length labels" if "k \<in> set orig_idx" for k
  proof -
    have "set orig_idx = set [0..<length sentence_lengths]"
      using p by (rule mset_eq_setD)
    then show ?thesis using that len by simp
  qed
  have vec: "\<forall>k\<in>set orig_idx.
               binary_label_vector (int ?n - 1) (?col ! k)
                 = Inr (map (\<lambda>i. if int i = labels ! k then 1 else 0) [0..<?n - 1])"
  proof
    fix k assume k: "k \<in> set orig_idx"
    then have kl: "k < length labels" by (rule idx)
    then have "labels ! k \<in> set labels" by simp
    then have "0 \<le> labels ! k" "labels ! k < int ?n"
      using rng by blast+
    moreover have "0 < ?n" using n by simp
    ultimately have "binary_label_vector (int ?n - 1) (IntCell (labels ! k))
        = Inr (map (\<lambda>i. if int i = labels ! k then 1 else 0) [0..<?n - 1])"
      by (rule binary_label_vector_in_range)
    moreover have "?col ! k = IntCell (labels ! k)"
      using kl by simp
    ultimately show "binary_label_vector (int ?n - 1) (?col ! k)
        = Inr (map (\<lambda>i. if int i = labels ! k then 1 else 0) [0..<?n - 1])"
      by (simp only:)
  qed
  have "py_mapM (binary_label_vector (int ?n - 1)) (map (\<lambda>i. ?col ! i) orig_idx)
      = Inr (map (\<lambda>k. map (\<lambda>i. if int i = labels ! k then 1 else 0) [0..<?n - 1]) orig_idx)"
  proof -
    have "py_mapM (\<lambda>k. binary_label_vector (int ?n - 1) (?col ! k)) orig_idx
        = Inr (map (\<lambda>k. map (\<lambda>i. if int i = labels ! k then 1 else 0) [0..<?n - 1]) orig_idx)"
      using vec by (rule py_mapM_Inr)
    moreover have "py_mapM f (map g xs) = py_mapM (\<lambda>x. f (g x)) xs" for f :: "cell \<Rightarrow> py_error + int list"
      and g :: "nat \<Rightarrow> cell" and xs
      by (induction xs) simp_all
    ultimately show ?thesis by simp
  qed
  then have "ready_binary_labels_batch self label_batch sentence_lengths
      = Inr (LabelTensor (map (\<lambda>k. map (\<lambda>i. if int i = labels ! k then 1 else 0)
                                       [0..<?n - 1]) orig_idx))"
    using r zs s by (simp add: ready_binary_labels_batch_def)
  then show ?thesis
    using s by blast
qed

lemma ready_supplemental_keys:
  "ready_supplemental self lens items readied = Inr out \<Longrightarrow>
     fst ` set out \<subseteq> fst ` set readied \<union> {''relation_masks'', ''binary_labels'', ''triple''}"
proof (induction items arbitrary: readied)
  case Nil
  then show ?case by auto
next
  case (Cons item items)
  obtain name sb where item: "item = (name, sb)" by (cases item)
  have step: "\<exists>readied'. ready_supplemental self lens items readied' = Inr out
      \<and> fst ` set readied' \<subseteq> fst ` set readied \<union> {''relation_masks'', ''binary_labels'', ''triple''}"
  proof (cases "name = ''relation_masks''")
    case True
    then obtain t where "ready_supplemental self lens items (AList.update name t readied) = Inr out"
      using Cons.prems item by (auto simp: py_bind_eq_Inr)
    then show ?thesis using True by (intro exI [of _ "AList.update name t readied"]) (auto simp: dom_update)
  next
    case nm: False
    show ?thesis
    proof (cases "name = ''binary_labels''")
      case True
      then obtain t where "ready_supplemental self lens items (AList.update name t readied) = Inr out"
        using Cons.prems item by (auto simp: py_bind_eq_Inr)
      then show ?thesis using True by (intro exI [of _ "AList.update name t readied"]) (auto simp: dom_update)
    next
      case nb: False
      show ?thesis
      proof (cases "name = ''triple''")
        case True
        then obtain t where "ready_supplemental self lens items (AList.update name t readied) = Inr out"
          using Cons.prems item by (auto simp: py_bind_eq_Inr)
        then show ?thesis using True by (intro exI [of _ "AList.update name t readied"]) (auto simp: dom_update)
      next
        case False
        then have "ready_supplemental self lens items readied = Inr out"
          using Cons.prems item nm nb by simp
        then show ?thesis by (intro exI [of _ readied]) auto
      qed
    qed
  qed
  then obtain readied' where a: "ready_supplemental self lens items readied' = Inr out"
    and b: "fst ` set readied' \<subseteq> fst ` set readied \<union> {''relation_masks'', ''binary_labels'', ''triple''}"
    by blast
  from Cons.IH [OF a] b show ?case by blast
qed

lemma ready_data_batch_keys:
  assumes "ready_data_batch self coin batch = Inr r"
  shows "fst ` set (rb_supplemental r) \<subseteq> {''relation_masks'', ''binary_labels'', ''triple''}"
proof -
  obtain rb supp where "ready_supplemental self (rb_sentence_lengths rb) (db_supplemental batch) [] = Inr supp"
    and "r = rb \<lparr> rb_supplemental := supp \<rparr>"
    using assms by (auto simp: ready_data_batch_def py_bind_eq_Inr Let_def)
  then show ?thesis
    using ready_supplemental_keys [of self "rb_sentence_lengths rb" "db_supplemental batch" "[]" supp]
    by simp
qed

lemma ready_data_batch_no_relation_masking:
  assumes "ready_data_batch self coin batch = Inr r"
  shows "map_of (rb_supplemental r) ''relation_masking'' = None"
proof -
  have "''relation_masking'' \<notin> fst ` set (rb_supplemental r)"
    using ready_data_batch_keys [OF assms] by auto
  then show ?thesis by (simp add: map_of_eq_None_iff)
qed

lemma ready_relation_masks_batch_no_rel2id:
  "b_rel2id self = None \<Longrightarrow>
     ready_relation_masks_batch self mask_batch lens = Inl (AttributeError ''rel2id'')"
  by (simp add: ready_relation_masks_batch_def)

lemma ready_binary_labels_batch_with_rel2id_example:
  "ready_binary_labels_batch
     (ex_batcher \<lparr> b_rel2id := Some [(''per:title'', 0), (''org:members'', 1), (''no_relation'', 2)] \<rparr>)
     [[IntCell 0], [IntCell 2], [IntCell 1]] [4, 5, 4]
   = Inr (LabelTensor [[0, 0], [0, 1], [1, 0]])"
proof -
  let ?self = "ex_batcher \<lparr> b_rel2id := Some [(''per:title'', 0), (''org:members'', 1), (''no_relation'', 2)] \<rparr>"
  have h1: "b_rel2id ?self = Some [(''per:title'', 0), (''org:members'', 1), (''no_relation'', 2)]"
    by simp
  have h2: "[(''per:title'', 0::int), (''org:members'', 1), (''no_relation'', 2)] \<noteq> []"
    by simp
  have h3: "[[IntCell 0], [IntCell 2], [IntCell 1]] = map (\<lambda>l. [IntCell l]) [0, 2, 1]"
    by simp
  have h4: "[0, 2, 1 :: int] \<noteq> []" by simp
  have h5: "length [4, 5, 4 :: nat] = length [0, 2, 1 :: int]" by simp
  have h6: "\<forall>l\<in>set [0, 2, 1 :: int].
              0 \<le> l \<and> l < int (length [(''per:title'', 0::int), (''org:members'', 1), (''no_relation'', 2)])"
    by simp
  obtain sorted_labels orig_idx where
    a: "sort_all [map IntCell [0, 2, 1]] [4, 5, 4] = Inr (sorted_labels, orig_idx)" and
    b: "ready_binary_labels_batch ?self [[IntCell 0], [IntCell 2], [IntCell 1]] [4, 5, 4]
          = Inr (LabelTensor (map (\<lambda>k. map (\<lambda>i. if int i = [0, 2, 1] ! k then 1 else 0)
              [0..<length [(''per:title'', 0::int), (''org:members'', 1), (''no_relation'', 2)] - 1])
                orig_idx))"
    using ready_binary_labels_batch_with_rel2id [OF h1 h2 h3 h4 h5 h6] by blast
  have "sort_all [map IntCell [0, 2, 1]] [4, 5, 4]
      = Inr ([[IntCell 2, IntCell 1, IntCell 0]], [1, 2, 0])"
    by code_simp
  then have c: "orig_idx = [1, 2, 0]"
    using a by simp
  show ?thesis
    unfolding b c by (simp add: upt_rec)
qed

lemma ready_binary_labels_batch_no_rel2id:
  "b_rel2id self = None \<Longrightarrow>
     ready_binary_labels_batch self label_batch lens = Inl (AttributeError ''rel2id'')"
  by (simp add: ready_binary_labels_batch_def)

text \<open>
  C2 fails on the code. \<open>ready_binary_labels_batch\<close> starts with \<open>len(self.rel2id)\<close>, and a
  Batcher has no attribute \<open>rel2id\<close>: on every Batcher that \<open>Batcher.__init__\<close> builds, for
  every label batch, the call raises AttributeError and returns no vector. So does
  \<open>ready_data_batch\<close> on a batch of two examples that carries binary labels.
\<close>

theorem ready_binary_labels_batch_attribute_error:
  "ready_binary_labels_batch (batcher_init is_eval c) label_batch sentence_lengths
     = Inl (AttributeError ''rel2id'')
   \<and> ready_data_batch ex_batcher (\<lambda>_ _. False) ex_binary_batch = Inl (AttributeError ''rel2id'')"
proof
  show "ready_binary_labels_batch (batcher_init is_eval c) label_batch sentence_lengths
          = Inl (AttributeError ''rel2id'')"
    by (simp add: ready_binary_labels_batch_def batcher_init_def)
next
  show "ready_data_batch ex_batcher (\<lambda>_ _. False) ex_binary_batch = Inl (AttributeError ''rel2id'')"
    by code_simp
qed

text \<open>
  C1 fails on the code. \<open>ready_data_batch\<close> dispatches on the name \<open>relation_masks\<close>, while the
  field is stored under \<open>relation_masking\<close>: the field is skipped, and the readied batch has
  no entry under that key. Here the batch carries the known-relations sets of two examples
  and the readied supplemental map holds the triple tensor only.
\<close>

theorem ready_data_batch_relation_masking_dropped:
  "map_of (db_supplemental ex_batch) ''relation_masking'' = Some [[SetCell [0]], [SetCell [1, 0]]]
   \<and> ready_data_batch ex_batcher (\<lambda>_ _. False) ex_batch
     = Inr \<lparr> rb_words = [[7, 8, 9], [5, 6, 0]],
             rb_masks = [[False, False, False], [False, False, True]],
             rb_pos = [[1, 1, 1], [1, 1, 0]], rb_ner = [[2, 2, 2], [2, 2, 0]],
             rb_deprel = [[3, 3, 3], [3, 3, 0]],
             rb_subj_positions = [[0, 1, 2], [0, 1, 0]],
             rb_obj_positions = [[- 1, 0, 1], [- 1, 0, 0]],
             rb_rels = [[0, 1], [1, 0]], rb_orig_idx = [1, 0],
             rb_sentence_lengths = [2, 3],
             rb_supplemental = [(''triple'', TripleTensor [4, 4] [1, 0] [6, 5])] \<rparr>"
  by code_simp

section \<open>DataProcessor.parse_data\<close>

text \<open>
  The configuration options the data pipeline reads, a raw record \<open>d\<close> of a partition file
  (a JSON object: an absent key is \<open>None\<close>), the parsed sample with its \<open>base\<close> and
  \<open>supplemental\<close> dictionaries, and the DataProcessor with the tables of \<open>self.name2id\<close>.
  Python dictionaries are association lists in insertion order, read with \<open>map_of\<close> and written
  with \<open>AList.update\<close>; Python sets are lists without repetition. The vocabulary
  \<open>vocab.word2id\<close> and the tag tables of \<open>utils.constant\<close> are only looked up, and are
  parameters.
\<close>

type_synonym triple = "int \<times> int \<times> int"

record config =
  cfg_lower :: bool
  cfg_typed_relations :: bool
  cfg_relation_masking :: bool
  cfg_sample_size :: "int option"
  cfg_batch_size :: int

record raw_record =
  d_token :: "string list option"
  d_subj_start :: "int option"
  d_subj_end :: "int option"
  d_obj_start :: "int option"
  d_obj_end :: "int option"
  d_subj_type :: "string option"
  d_obj_type :: "string option"
  d_stanford_pos :: "string list option"
  d_stanford_ner :: "string list option"
  d_stanford_deprel :: "string list option"
  d_relation :: "string option"

record base_sample =
  tokens :: "int list"
  pos :: "int list"
  ner :: "int list"
  deprel :: "int list"
  subj_positions :: "int list"
  obj_positions :: "int list"
  relation :: int
  subj_id :: int
  obj_id :: int
  activated_relations :: "int list option"

record sample =
  base :: base_sample
  supplemental :: "(string \<times> cell list) list"

record data_processor =
  config :: config
  dp_constant :: constants
  str_lower :: "string \<Rightarrow> string"
  ent2id :: "string \<Rightarrow> int option"
  pos2id :: "string \<Rightarrow> int option"
  ner2id :: "string \<Rightarrow> int option"
  deprel2id :: "string \<Rightarrow> int option"
  subj2id :: "(string \<times> int) list"
  obj2id :: "(string \<times> int) list"
  rel2id :: "(string \<times> int) list"
  binary_rel2rels :: "(string \<times> int list) list"
  subj2rels :: "(string \<times> int list) list"
  subj_obj2triples :: "(string \<times> triple list) list"
  id2rel :: "(int \<times> string) list"
  rel2binary_rel :: "(int \<times> string) list"
  rel2subj :: "(int \<times> string) list"
  triple2subj_obj :: "(triple \<times> string) list"
  rel2ids :: "(string \<times> int list) list"
  graph :: "((int \<times> int) \<times> int list) list"
  num_rel :: nat
  partitions :: "(string \<times> sample list) list"

text \<open>\<open>d[key]\<close>: a missing key raises KeyError.\<close>

definition py_getitem :: "string \<Rightarrow> 'a option \<Rightarrow> py_error + 'a" where
  "py_getitem key v = (case v of None \<Rightarrow> Inl (KeyError key) | Some x \<Rightarrow> Inr x)"

text \<open>
  \<open>t.lower()\<close> is a parameter of the processor (\<open>str_lower\<close>), since it depends on how the
  characters of a token are encoded. On tokens of ASCII characters it is \<open>py_lower\<close>, which
  the examples use.
\<close>

definition py_lower :: "string \<Rightarrow> string" where
  "py_lower s = map (\<lambda>c. let k = (of_char c :: nat) in
                          if 65 \<le> k \<and> k \<le> 90 then char_of (k + 32) else c) s"

text \<open>
  \<open>xs[a:b] = new\<close>: slice bounds are clamped to the list, never raise, and a stop before the
  start makes the slice empty at the start; the list may grow or shrink.
\<close>

definition py_slice_index :: "int \<Rightarrow> int \<Rightarrow> int" where
  "py_slice_index n i = (if i < 0 then max 0 (i + n) else min i n)"

definition py_slice_assign :: "'a list \<Rightarrow> int \<Rightarrow> int \<Rightarrow> 'a list \<Rightarrow> 'a list" where
  "py_slice_assign xs a b new =
     (let n = int (length xs);
          lo = py_slice_index n a;
          hi = max lo (py_slice_index n b)
      in take (nat lo) xs @ new @ drop (nat hi) xs)"

text \<open>\<open>s.add(x)\<close>, and \<open>d[k].add(v)\<close> on a \<open>defaultdict(lambda: set())\<close>.\<close>

definition set_add :: "'a \<Rightarrow> 'a list \<Rightarrow> 'a list" where
  "set_add x s = (if x \<in> set s then s else s @ [x])"

definition defaultdict_add :: "'k \<Rightarrow> 'v \<Rightarrow> ('k \<times> 'v list) list \<Rightarrow> ('k \<times> 'v list) list" where
  "defaultdict_add k v m =
     AList.update k (set_add v (case map_of m k of None \<Rightarrow> [] | Some s \<Rightarrow> s)) m"

text \<open>\<^verbatim>\<open>[mapper[t] if t in mapper else constant.UNK_ID for t in names]\<close>\<close>

definition map_to_ids :: "constants \<Rightarrow> string list \<Rightarrow> (string \<Rightarrow> int option) \<Rightarrow> int list" where
  "map_to_ids c names mapper = map (\<lambda>t. case mapper t of Some i \<Rightarrow> i | None \<Rightarrow> UNK_ID c) names"

text \<open>\<open>pat in s\<close> on strings: \<open>pat\<close> occurs as a contiguous substring of \<open>s\<close>.\<close>

definition py_in_str :: "string \<Rightarrow> string \<Rightarrow> bool" where
  "py_in_str pat s = sublist pat s"

text \<open>
  The bucket the subject-type grouping rule names for a relation name, as the specification
  words it: \<open>per\<close> is checked before \<open>org\<close>, anything else is \<open>no_relation\<close>.
\<close>

definition subj_type_label :: "string \<Rightarrow> string" where
  "subj_type_label relation_name =
     (if py_in_str ''per'' relation_name then ''per:relation''
      else if py_in_str ''org'' relation_name then ''org:relation''
      else ''no_relation'')"

text \<open>
  \<^verbatim>\<open>if relation_name not in self.name2id['rel2id']:
    self.name2id['rel2id'][relation_name] = len(self.name2id['rel2id'])
relation_id = self.name2id['rel2id'][relation_name]\<close>
\<close>

definition assign_relation_id :: "data_processor \<Rightarrow> string \<Rightarrow> data_processor \<times> int" where
  "assign_relation_id self relation_name =
     (case map_of (rel2id self) relation_name of
        None \<Rightarrow> (self \<lparr> rel2id := rel2id self @ [(relation_name, int (length (rel2id self)))] \<rparr>,
                 int (length (rel2id self)))
      | Some relation_id \<Rightarrow> (self, relation_id))"

text \<open>
  The three groupings of the loop body of \<open>parse_data\<close>:
  \<^verbatim>\<open>if relation_name == 'no_relation':
    self.name2id['binary_rel2rels']['no_relation'].add(relation_id)
else:
    self.name2id['binary_rel2rels']['has_relation'].add(relation_id)
if 'per' in relation_name:
    self.name2id['subj2rels']['per:relation'].add(relation_id)
elif 'org' in relation_name:
    self.name2id['subj2rels']['org:relation'].add(relation_id)
else:
    self.name2id['subj2rels']['no_relation'].add(relation_id)
if relation_name != 'no_relation':
    subj_objs = '{}:{}'.format(subject_type, object_type)
    self.name2id['subj_obj2triples'][subj_objs].add(triple)
else:
    self.name2id['subj_obj2triples']['no_relation'].add(triple)\<close>
\<close>

definition group_relation ::
  "data_processor \<Rightarrow> string \<Rightarrow> string \<Rightarrow> string \<Rightarrow> int \<Rightarrow> triple \<Rightarrow> data_processor" where
  "group_relation self relation_name subject_type object_type relation_id triple =
     (let self = self \<lparr> binary_rel2rels :=
                   (if relation_name = ''no_relation''
                    then defaultdict_add ''no_relation'' relation_id (binary_rel2rels self)
                    else defaultdict_add ''has_relation'' relation_id (binary_rel2rels self)) \<rparr>;
          self = self \<lparr> subj2rels :=
                   (if py_in_str ''per'' relation_name
                    then defaultdict_add ''per:relation'' relation_id (subj2rels self)
                    else if py_in_str ''org'' relation_name
                    then defaultdict_add ''org:relation'' relation_id (subj2rels self)
                    else defaultdict_add ''no_relation'' relation_id (subj2rels self)) \<rparr>
      in self \<lparr> subj_obj2triples :=
                   (if relation_name \<noteq> ''no_relation''
                    then defaultdict_add (subject_type @ '':'' @ object_type) triple
                           (subj_obj2triples self)
                    else defaultdict_add ''no_relation'' triple (subj_obj2triples self)) \<rparr>)"

text \<open>
  One iteration of the loop of \<open>parse_data\<close>, in three stages that keep the order of the
  source. Every \<open>d[...]\<close> and every \<open>self.name2id['ent2id'][...]\<close> is a lookup that raises
  KeyError; nothing checks the span boundaries. First the lookups up to the entity ids:
  \<^verbatim>\<open>tokens = d['token']
ss, se = d['subj_start'], d['subj_end']
os, oe = d['obj_start'], d['obj_end']
subject_type = 'SUBJ-' + d['subj_type']
object_type = 'OBJ-' + d['obj_type']
subject_id = self.name2id['ent2id'][subject_type]
object_id = self.name2id['ent2id'][object_type]\<close>
\<close>

record span_fields =
  f_token :: "string list"
  f_ss :: int
  f_se :: int
  f_os :: int
  f_oe :: int
  f_subj_type :: string
  f_obj_type :: string
  f_subject_id :: int
  f_object_id :: int

definition read_span_fields :: "data_processor \<Rightarrow> raw_record \<Rightarrow> py_error + span_fields" where
  "read_span_fields self d =
     py_bind (py_getitem ''token'' (d_token d)) (\<lambda>toks.
     py_bind (py_getitem ''subj_start'' (d_subj_start d)) (\<lambda>ss.
     py_bind (py_getitem ''subj_end'' (d_subj_end d)) (\<lambda>se.
     py_bind (py_getitem ''obj_start'' (d_obj_start d)) (\<lambda>os.
     py_bind (py_getitem ''obj_end'' (d_obj_end d)) (\<lambda>oe.
     py_bind (py_getitem ''subj_type'' (d_subj_type d)) (\<lambda>subj_type.
     py_bind (py_getitem ''obj_type'' (d_obj_type d)) (\<lambda>obj_type.
     py_bind (py_getitem (''SUBJ-'' @ subj_type) (ent2id self (''SUBJ-'' @ subj_type))) (\<lambda>subject_id.
     py_bind (py_getitem (''OBJ-'' @ obj_type) (ent2id self (''OBJ-'' @ obj_type))) (\<lambda>object_id.
       Inr \<lparr> f_token = toks, f_ss = ss, f_se = se, f_os = os, f_oe = oe,
             f_subj_type = subj_type, f_obj_type = obj_type,
             f_subject_id = subject_id, f_object_id = object_id \<rparr>)))))))))"

text \<open>Then the tag sequences and the relation label, the remaining lookups in \<open>d\<close>.\<close>

record tag_fields =
  f_stanford_pos :: "string list"
  f_stanford_ner :: "string list"
  f_stanford_deprel :: "string list"
  f_relation :: string

definition read_tag_fields :: "raw_record \<Rightarrow> py_error + tag_fields" where
  "read_tag_fields d =
     py_bind (py_getitem ''stanford_pos'' (d_stanford_pos d)) (\<lambda>stanford_pos.
     py_bind (py_getitem ''stanford_ner'' (d_stanford_ner d)) (\<lambda>stanford_ner.
     py_bind (py_getitem ''stanford_deprel'' (d_stanford_deprel d)) (\<lambda>stanford_deprel.
     py_bind (py_getitem ''relation'' (d_relation d)) (\<lambda>rel.
       Inr \<lparr> f_stanford_pos = stanford_pos, f_stanford_ner = stanford_ner,
             f_stanford_deprel = stanford_deprel, f_relation = rel \<rparr>))))"

text \<open>
  The computations of the loop body, none of which raises: lower-casing, the anonymised
  spans (\<open>tokens[ss:se + 1] = [subject_type] * (se - ss + 1)\<close>, likewise for the object), the
  id sequences, the positions, the relation id, the groupings, the entity-pair graph and the
  sample. \<open>update_tables\<close> collects the writes to the tables of the processor and returns the
  relation id; \<open>make_sample\<close> builds the sample from the tables the loop only reads (the
  vocabulary, the tag tables, the configuration), which \<open>update_tables\<close> leaves unchanged.
\<close>

definition anonymize :: "data_processor \<Rightarrow> span_fields \<Rightarrow> int list" where
  "anonymize self e =
     (let toks = (if cfg_lower (config self) then map (str_lower self) (f_token e) else f_token e);
          toks = py_slice_assign toks (f_ss e) (f_se e + 1)
                   (py_repeat (''SUBJ-'' @ f_subj_type e) (f_se e - f_ss e + 1));
          toks = py_slice_assign toks (f_os e) (f_oe e + 1)
                   (py_repeat (''OBJ-'' @ f_obj_type e) (f_oe e - f_os e + 1))
      in map_to_ids (dp_constant self) toks (ent2id self))"

definition relation_name_of :: "data_processor \<Rightarrow> span_fields \<Rightarrow> tag_fields \<Rightarrow> string" where
  "relation_name_of self e t =
     (if cfg_typed_relations (config self)
      then f_subj_type e @ '':'' @ f_relation t @ '':'' @ f_obj_type e
      else f_relation t)"

definition update_tables :: "data_processor \<Rightarrow> span_fields \<Rightarrow> tag_fields \<Rightarrow> data_processor \<times> int" where
  "update_tables self e t =
     (let subject_type = ''SUBJ-'' @ f_subj_type e;
          object_type = ''OBJ-'' @ f_obj_type e;
          subject_id = f_subject_id e;
          object_id = f_object_id e;
          self = self \<lparr> subj2id := AList.update subject_type subject_id (subj2id self) \<rparr>;
          self = self \<lparr> obj2id := AList.update object_type object_id (obj2id self) \<rparr>;
          relation_name = relation_name_of self e t;
          (self, relation_id) = assign_relation_id self relation_name;
          triple = (subject_id, relation_id, object_id);
          self = group_relation self relation_name subject_type object_type relation_id triple
      in
      if cfg_relation_masking (config self)
      then (self \<lparr> graph := defaultdict_add (subject_id, object_id) relation_id (graph self) \<rparr>,
            relation_id)
      else (self, relation_id))"

definition make_sample :: "data_processor \<Rightarrow> span_fields \<Rightarrow> tag_fields \<Rightarrow> int \<Rightarrow> sample" where
  "make_sample self e t relation_id =
     (let subject_id = f_subject_id e;
          object_id = f_object_id e;
          toks = anonymize self e;
          l = int (length toks);
          base_sample = \<lparr> tokens = toks,
                          pos = map_to_ids (dp_constant self) (f_stanford_pos t) (pos2id self),
                          ner = map_to_ids (dp_constant self) (f_stanford_ner t) (ner2id self),
                          deprel = map_to_ids (dp_constant self) (f_stanford_deprel t) (deprel2id self),
                          subj_positions = get_positions (f_ss e) (f_se e) l,
                          obj_positions = get_positions (f_os e) (f_oe e) l,
                          relation = relation_id, subj_id = subject_id, obj_id = object_id,
                          activated_relations = None \<rparr>;
          triple_cells = [IntCell subject_id, IntCell relation_id, IntCell object_id];
          supplemental_sample = [(''triple'', triple_cells)]
      in
      if cfg_relation_masking (config self)
      then \<lparr> base = base_sample,
             supplemental = AList.update ''relation_masking'' triple_cells supplemental_sample \<rparr>
      else \<lparr> base = base_sample, supplemental = supplemental_sample \<rparr>)"

definition build_sample ::
  "data_processor \<Rightarrow> span_fields \<Rightarrow> tag_fields \<Rightarrow> data_processor \<times> sample" where
  "build_sample self e t =
     (let (self', relation_id) = update_tables self e t
      in (self', make_sample self e t relation_id))"

definition parse_sample :: "data_processor \<Rightarrow> raw_record \<Rightarrow> py_error + data_processor \<times> sample" where
  "parse_sample self d =
     py_bind (read_span_fields self d) (\<lambda>e.
     py_bind (read_tag_fields d) (\<lambda>t. Inr (build_sample self e t)))"

fun parse_samples ::
  "data_processor \<Rightarrow> raw_record list \<Rightarrow> sample list \<Rightarrow> py_error + data_processor \<times> sample list" where
  "parse_samples self [] parsed_data = Inr (self, parsed_data)"
| "parse_samples self (d # ds) parsed_data =
     py_bind (parse_sample self d) (\<lambda>(self, parsed_sample).
       parse_samples self ds (parsed_data @ [parsed_sample]))"

text \<open>
  \<^verbatim>\<open>for key, value_set in dict2set.items():
    for value in value_set:
        id2id[value] = key\<close>
\<close>

definition reverse_set_maps :: "('k \<times> 'v list) list \<Rightarrow> ('v \<times> 'k) list" where
  "reverse_set_maps dict2set =
     fold (\<lambda>(key, value_set) id2id. fold (\<lambda>v acc. AList.update v key acc) value_set id2id)
       dict2set []"

definition create_all_possible_triples :: "data_processor \<Rightarrow> triple list" where
  "create_all_possible_triples self =
     remdups (concat (map (\<lambda>s. concat (map (\<lambda>r. map (\<lambda>ob. (s, r, ob)) (map snd (obj2id self)))
                                           (map snd (rel2id self))))
                          (map snd (subj2id self))))"

text \<open>
  \<^verbatim>\<open>for unused_triple in unused_triples:
    assert unused_triple not in mappings
    mappings[unused_triple] = 'no_relation'\<close>
\<close>

fun add_unused_triples :: "triple list \<Rightarrow> (triple \<times> string) list \<Rightarrow> py_error + (triple \<times> string) list" where
  "add_unused_triples [] mappings = Inr mappings"
| "add_unused_triples (unused_triple # rest) mappings =
     (if unused_triple \<in> fst ` set mappings then Inl AssertionError
      else add_unused_triples rest (AList.update unused_triple ''no_relation'' mappings))"

definition parse_data ::
  "data_processor \<Rightarrow> raw_record list \<Rightarrow> py_error + data_processor \<times> sample list" where
  "parse_data self data =
     py_bind (parse_samples self data []) (\<lambda>(self, parsed_data).
       let self = self \<lparr> id2rel := fold (\<lambda>(k, v) acc. AList.update v k acc) (rel2id self) [] \<rparr>;
           self = self \<lparr> rel2binary_rel := reverse_set_maps (binary_rel2rels self) \<rparr>;
           self = self \<lparr> rel2subj := reverse_set_maps (subj2rels self) \<rparr>;
           self = self \<lparr> triple2subj_obj := reverse_set_maps (subj_obj2triples self) \<rparr>;
           all_possible_triples = create_all_possible_triples self;
           unused_triples = filter (\<lambda>t. t \<notin> fst ` set (triple2subj_obj self)) all_possible_triples
       in
       py_bind (add_unused_triples unused_triples (triple2subj_obj self)) (\<lambda>mappings.
         let self = self \<lparr> triple2subj_obj := mappings \<rparr>;
             self = self \<lparr> rel2ids := map (\<lambda>(k, v). (k, [v])) (rel2id self) \<rparr>;
             self = self \<lparr> num_rel := length (rel2id self) \<rparr>
         in Inr (self, parsed_data)))"

text \<open>
  \<open>DataProcessor.__init__\<close> starts from empty tables and runs \<open>preprocess_data\<close>, which parses
  the partitions one after the other on the same tables. The decoded content of the partition
  files is the parameter \<open>files\<close>.
\<close>

fun preprocess_data ::
  "data_processor \<Rightarrow> (string \<times> raw_record list) list \<Rightarrow> (string \<times> sample list) list
     \<Rightarrow> py_error + data_processor" where
  "preprocess_data self [] parts = Inr (self \<lparr> partitions := parts \<rparr>)"
| "preprocess_data self ((partition_name, partition_data) # rest) parts =
     py_bind (parse_data self partition_data) (\<lambda>(self, partition_parsed).
       preprocess_data self rest (AList.update partition_name partition_parsed parts))"

definition init_processor :: "config \<Rightarrow> constants \<Rightarrow> (string \<Rightarrow> string) \<Rightarrow> (string \<Rightarrow> int option)
    \<Rightarrow> (string \<Rightarrow> int option) \<Rightarrow> (string \<Rightarrow> int option) \<Rightarrow> (string \<Rightarrow> int option) \<Rightarrow> data_processor" where
  "init_processor cfg c lower_fn word2id POS_TO_ID NER_TO_ID DEPREL_TO_ID =
     \<lparr> config = cfg, dp_constant = c, str_lower = lower_fn, ent2id = word2id, pos2id = POS_TO_ID, ner2id = NER_TO_ID,
       deprel2id = DEPREL_TO_ID, subj2id = [], obj2id = [], rel2id = [],
       binary_rel2rels = [], subj2rels = [], subj_obj2triples = [],
       id2rel = [], rel2binary_rel = [], rel2subj = [], triple2subj_obj = [], rel2ids = [],
       graph = [], num_rel = 0, partitions = [] \<rparr>"

definition new_data_processor ::
  "config \<Rightarrow> constants \<Rightarrow> (string \<Rightarrow> string) \<Rightarrow> (string \<Rightarrow> int option) \<Rightarrow> (string \<Rightarrow> int option)
    \<Rightarrow> (string \<Rightarrow> int option) \<Rightarrow> (string \<Rightarrow> int option)
    \<Rightarrow> (string \<times> raw_record list) list \<Rightarrow> py_error + data_processor" where
  "new_data_processor cfg c lower_fn word2id POS_TO_ID NER_TO_ID DEPREL_TO_ID files =
     preprocess_data (init_processor cfg c lower_fn word2id POS_TO_ID NER_TO_ID DEPREL_TO_ID) files []"

text \<open>A small vocabulary, a processor with relation masking enabled, and raw records.\<close>

definition ex_vocab :: "string \<Rightarrow> int option" where
  "ex_vocab = map_of [(''SUBJ-PERSON'', 4), (''OBJ-TITLE'', 5), (''OBJ-PERSON'', 6), (''ann'', 10)]"

definition ex_processor :: data_processor where
  "ex_processor = init_processor
     \<lparr> cfg_lower = True, cfg_typed_relations = False, cfg_relation_masking = True,
       cfg_sample_size = None, cfg_batch_size = 2 \<rparr>
     \<lparr> PAD_ID = 0, UNK_ID = 1 \<rparr> py_lower ex_vocab (map_of [(''NN'', 2)]) (map_of [(''O'', 2)]) (map_of [(''ROOT'', 2)])"

definition ex_record :: "int \<Rightarrow> int \<Rightarrow> int \<Rightarrow> int \<Rightarrow> string \<Rightarrow> string \<Rightarrow> string \<Rightarrow> raw_record" where
  "ex_record ss se os oe st ot rel =
     \<lparr> d_token = Some [''Ann'', ''Chief''], d_subj_start = Some ss, d_subj_end = Some se,
       d_obj_start = Some os, d_obj_end = Some oe, d_subj_type = Some st, d_obj_type = Some ot,
       d_stanford_pos = Some [''NN'', ''NNP''], d_stanford_ner = Some [''O'', ''O''],
       d_stanford_deprel = Some [''ROOT'', ''x''], d_relation = Some rel \<rparr>"

end
